theory Spec2Isabelle
  imports Main "HOL-Library.Word" "HOL-Library.Char_ord" "HOL-Library.List_Lexorder"
begin

section \<open>Go values shared by both packages\<close>

text \<open>
  A Go \<^verbatim>\<open>error\<close> value. \<^verbatim>\<open>nil\<close> is \<open>None\<close> of \<open>error option\<close>.
  \<open>SkipDir\<close> is the sentinel of \<^verbatim>\<open>path/filepath\<close>; every other error carries its text.
\<close>

datatype error = SkipDir | ErrorString string

text \<open>
  A Go call either returns or panics (a nil dereference stops the program unless
  recovered; nothing in these files recovers).
\<close>

datatype 'a run = Panicked | Returned 'a

section \<open>Package \<^verbatim>\<open>differs\<close>: \<^verbatim>\<open>package_differs.go\<close>\<close>

text \<open>
  \<^verbatim>\<open>utils.Image\<close> is declared outside the two source files; the differs read only its
  \<^verbatim>\<open>Source\<close> field.
\<close>

record Image =
  Source :: string

text \<open>
  The interfaces \<^verbatim>\<open>MultiVersionPackageAnalyzer\<close> and \<^verbatim>\<open>SingleVersionPackageAnalyzer\<close>:
  two methods. \<^verbatim>\<open>getPackages\<close> inspects an image and may have effects, so it takes the
  state \<open>'w\<close> of the world it acts on and returns the new one; \<open>Inl\<close> is a non-nil error.
  The two interfaces differ only in the inventory type \<open>'inv\<close>. The method
  \<^verbatim>\<open>Name()\<close> is \<open>AnalyzerName\<close>, apart from the field \<^verbatim>\<open>Name\<close> of \<^verbatim>\<open>DirectoryEntry\<close>.
\<close>

record ('inv, 'w) PackageAnalyzer =
  getPackages :: "Image \<Rightarrow> 'w \<Rightarrow> (error + 'inv) \<times> 'w"
  AnalyzerName :: string

text \<open>
  \<^verbatim>\<open>utils.MultiVersionPackageDiffResult\<close> and \<^verbatim>\<open>utils.SingleVersionPackageDiffResult\<close>
  are declared outside the two source files. The composite literals of the source name
  their four fields; the two structs differ only in the type \<open>'d\<close> of \<^verbatim>\<open>Diff\<close>.
\<close>

record 'd PackageDiffResult =
  Image1 :: string
  Image2 :: string
  DiffType :: string
  Diff :: 'd

text \<open>
  The composite literal \<^verbatim>\<open>T{}\<close>: every field at its zero value. The zero value of the
  \<^verbatim>\<open>Diff\<close> field's type is a parameter, as that type is declared elsewhere.
\<close>

definition zeroResult :: "'d \<Rightarrow> 'd PackageDiffResult" where
  "zeroResult zeroDiff = \<lparr>Image1 = [], Image2 = [], DiffType = [], Diff = zeroDiff\<rparr>"

text \<open>\<^verbatim>\<open>strings.TrimSuffix\<close> of the Go standard library.\<close>

definition TrimSuffix :: "string \<Rightarrow> string \<Rightarrow> string" where
  "TrimSuffix s suffix =
     (if length suffix \<le> length s \<and> drop (length s - length suffix) s = suffix
      then take (length s - length suffix) s else s)"

text \<open>
  \<^verbatim>\<open>multiVersionDiff\<close>. The result pointer is an \<open>option\<close> (\<open>None\<close> would be nil), the
  error an \<open>error option\<close>. \<^verbatim>\<open>utils.GetMultiVersionMapDiff\<close> and the zero value of its
  result type live outside the two source files and are parameters.
\<close>

definition multiVersionDiff ::
  "('inv \<Rightarrow> 'inv \<Rightarrow> 'd) \<Rightarrow> 'd \<Rightarrow> Image \<Rightarrow> Image \<Rightarrow> ('inv, 'w) PackageAnalyzer \<Rightarrow> 'w
     \<Rightarrow> ('d PackageDiffResult option \<times> error option) \<times> 'w" where
  "multiVersionDiff GetMultiVersionMapDiff zeroDiff image1 image2 differ w =
     (case getPackages differ image1 w of
        (Inl err, w1) \<Rightarrow> ((Some (zeroResult zeroDiff), Some err), w1)
      | (Inr pack1, w1) \<Rightarrow>
          (case getPackages differ image2 w1 of
             (Inl err, w2) \<Rightarrow> ((Some (zeroResult zeroDiff), Some err), w2)
           | (Inr pack2, w2) \<Rightarrow>
               (let diff = GetMultiVersionMapDiff pack1 pack2
                in ((Some \<lparr>Image1 = Source image1, Image2 = Source image2,
                             DiffType = TrimSuffix (AnalyzerName differ) ''Analyzer'',
                             Diff = diff\<rparr>, None), w2))))"

text \<open>\<^verbatim>\<open>singleVersionDiff\<close>, with \<^verbatim>\<open>utils.GetMapDiff\<close> as its parameter.\<close>

definition singleVersionDiff ::
  "('inv \<Rightarrow> 'inv \<Rightarrow> 'd) \<Rightarrow> 'd \<Rightarrow> Image \<Rightarrow> Image \<Rightarrow> ('inv, 'w) PackageAnalyzer \<Rightarrow> 'w
     \<Rightarrow> ('d PackageDiffResult option \<times> error option) \<times> 'w" where
  "singleVersionDiff GetMapDiff zeroDiff image1 image2 differ w =
     (case getPackages differ image1 w of
        (Inl err, w1) \<Rightarrow> ((Some (zeroResult zeroDiff), Some err), w1)
      | (Inr pack1, w1) \<Rightarrow>
          (case getPackages differ image2 w1 of
             (Inl err, w2) \<Rightarrow> ((Some (zeroResult zeroDiff), Some err), w2)
           | (Inr pack2, w2) \<Rightarrow>
               (let diff = GetMapDiff pack1 pack2
                in ((Some \<lparr>Image1 = Source image1, Image2 = Source image2,
                             DiffType = TrimSuffix (AnalyzerName differ) ''Analyzer'',
                             Diff = diff\<rparr>, None), w2))))"

text \<open>
  To observe which images an analyzer is asked about, \<open>logged\<close> wraps any analyzer:
  the wrapped \<^verbatim>\<open>getPackages\<close> does what the analyzer does and appends the image to a
  list of calls kept beside the analyzer's own world.
\<close>

definition logged :: "('inv, 'w) PackageAnalyzer \<Rightarrow> ('inv, 'w \<times> Image list) PackageAnalyzer" where
  "logged differ =
     \<lparr>getPackages = (\<lambda>image wc.
        (let r = getPackages differ image (fst wc) in (fst r, (snd r, snd wc @ [image])))),
      AnalyzerName = AnalyzerName differ\<rparr>"

text \<open>
  An analyzer for the concrete runs below: its world counts the fetches made, its
  inventory of an image is the list holding the image's name, and it fails on the image
  named \<open>''bad''\<close>.
\<close>

definition aptAnalyzer :: "(string list, nat) PackageAnalyzer" where
  "aptAnalyzer =
     \<lparr>getPackages = (\<lambda>image n.
        (if Source image = ''bad'' then Inl (ErrorString ''no inventory'')
         else Inr [Source image], Suc n)),
      AnalyzerName = ''AptAnalyzer''\<rparr>"

section \<open>Package \<^verbatim>\<open>utils\<close>: \<^verbatim>\<open>fs_utils.go\<close>\<close>

subsection \<open>The operating system and the Go library, as the code sees them\<close>

type_synonym int64 = "64 word"
type_synonym byte = "8 word"

text \<open>
  \<^verbatim>\<open>os.FileInfo\<close>: the code calls its methods \<^verbatim>\<open>IsDir()\<close> and \<^verbatim>\<open>Size()\<close> only.
  (The field is \<open>StatSize\<close> because \<^verbatim>\<open>DirectoryEntry\<close> has a field \<^verbatim>\<open>Size\<close> too.)
\<close>

record FileInfo =
  IsDir :: bool
  StatSize :: int64

text \<open>
  What \<^verbatim>\<open>filepath.Walk\<close> finds from a path downwards: \<^verbatim>\<open>os.Lstat\<close> of the path fails
  (\<open>NoEntry\<close>), or gives a non-directory of some size (\<open>Regular\<close>), or a directory
  whose names cannot be read (\<open>Locked\<close>), or a directory together with what is found at
  each of its names, in the order \<^verbatim>\<open>Walk\<close> visits them (\<open>Folder\<close>).
\<close>

datatype tree =
    NoEntry error
  | Regular int64
  | Locked int64 error
  | Folder int64 "tree list"

text \<open>
  The capabilities the code consumes: \<^verbatim>\<open>os.Stat\<close>, \<^verbatim>\<open>ioutil.ReadFile\<close>, the tree that
  \<^verbatim>\<open>filepath.Walk\<close> traverses from a path, \<^verbatim>\<open>filepath.Join\<close>, and \<^verbatim>\<open>isTar\<close>, a
  function of this package that is declared outside the two source files (a test on the
  file name). One comparison sees one state of the file system, so each is a function.
\<close>

record filesystem =
  Stat :: "string \<Rightarrow> error + FileInfo"
  ReadFile :: "string \<Rightarrow> error + byte list"
  Subtree :: "string \<Rightarrow> tree"
  Join :: "string \<Rightarrow> string \<Rightarrow> string"
  isTar :: "string \<Rightarrow> bool"

text \<open>
  \<^verbatim>\<open>filepath.WalkFunc\<close>: called with the \<^verbatim>\<open>FileInfo\<close> (nil, here \<open>None\<close>, when
  \<^verbatim>\<open>Lstat\<close> failed) and the error met at that path; it returns an error or nil. The
  callbacks of this file are closures over a local variable, the state \<open>'s\<close>; neither
  reads its path argument for the sizes, so the model leaves the path out.
\<close>

type_synonym 's WalkFunc = "FileInfo option \<Rightarrow> error option \<Rightarrow> 's \<Rightarrow> ('s \<times> error option) run"

text \<open>
  \<^verbatim>\<open>walk\<close> of \<^verbatim>\<open>path/filepath\<close>: a non-directory is handed to the callback; for a
  directory the names are read, the callback gets the directory with the error of that
  read, and the walk returns what the callback returned if either is non-nil; otherwise
  each name is visited in turn. A failed \<^verbatim>\<open>Lstat\<close> of a name is handed to the callback
  with a nil \<^verbatim>\<open>FileInfo\<close>. The loop stops at the first error that is not \<^verbatim>\<open>SkipDir\<close>
  (and at \<^verbatim>\<open>SkipDir\<close> coming back from a non-directory).
\<close>

fun walk :: "tree \<Rightarrow> 's WalkFunc \<Rightarrow> 's \<Rightarrow> ('s \<times> error option) run"
  and walkNames :: "tree list \<Rightarrow> 's WalkFunc \<Rightarrow> 's \<Rightarrow> ('s \<times> error option) run" where
  "walk (NoEntry err) walkFn s = walkFn None (Some err) s"
| "walk (Regular n) walkFn s = walkFn (Some \<lparr>IsDir = False, StatSize = n\<rparr>) None s"
| "walk (Locked n err) walkFn s = walkFn (Some \<lparr>IsDir = True, StatSize = n\<rparr>) (Some err) s"
| "walk (Folder n names) walkFn s =
     (case walkFn (Some \<lparr>IsDir = True, StatSize = n\<rparr>) None s of
        Panicked \<Rightarrow> Panicked
      | Returned (s', Some err1) \<Rightarrow> Returned (s', Some err1)
      | Returned (s', None) \<Rightarrow> walkNames names walkFn s')"
| "walkNames [] walkFn s = Returned (s, None)"
| "walkNames (t # ts) walkFn s =
     (case walk t walkFn s of
        Panicked \<Rightarrow> Panicked
      | Returned (s', None) \<Rightarrow> walkNames ts walkFn s'
      | Returned (s', Some err) \<Rightarrow>
          (if err \<noteq> SkipDir \<or> (case t of Regular _ \<Rightarrow> True | _ \<Rightarrow> False)
           then Returned (s', Some err)
           else walkNames ts walkFn s'))"

text \<open>\<^verbatim>\<open>filepath.Walk\<close>: \<^verbatim>\<open>SkipDir\<close> at the root is not an error.\<close>

definition Walk :: "tree \<Rightarrow> 's WalkFunc \<Rightarrow> 's \<Rightarrow> ('s \<times> error option) run" where
  "Walk root walkFn s =
     (case walk root walkFn s of
        Panicked \<Rightarrow> Panicked
      | Returned (s', err) \<Rightarrow> Returned (s', if err = Some SkipDir then None else err))"

text \<open>\<^verbatim>\<open>sort.Strings\<close>: increasing order, strings compared byte by byte.\<close>

definition sortStrings :: "string list \<Rightarrow> string list" where
  "sortStrings xs = sort xs"

subsection \<open>The set-diff primitive\<close>

text \<open>
  \<^verbatim>\<open>GetMatches\<close>, \<^verbatim>\<open>GetAdditions\<close> and \<^verbatim>\<open>GetDeletions\<close> are functions of this
  package that the two source files call and do not define. The spec (4.1) gives their
  contract on two sequences of strings A (old) and B (new), treated as sets, duplicates
  ignored.
\<close>

text \<open>Modelled from the spec: \<^verbatim>\<open>GetMatches\<close> (not under src/), the elements present in both.\<close>

definition GetMatches :: "string list \<Rightarrow> string list \<Rightarrow> string list" where
  "GetMatches a b = remdups (filter (\<lambda>x. x \<in> set b) a)"

text \<open>
  Modelled from the spec: \<^verbatim>\<open>GetAdditions\<close> (not under src/), the elements present in B
  but not in A.
\<close>

definition GetAdditions :: "string list \<Rightarrow> string list \<Rightarrow> string list" where
  "GetAdditions a b = remdups (filter (\<lambda>x. x \<notin> set a) b)"

text \<open>
  Modelled from the spec: \<^verbatim>\<open>GetDeletions\<close> (not under src/), the elements present in A
  but not in B.
\<close>

definition GetDeletions :: "string list \<Rightarrow> string list \<Rightarrow> string list" where
  "GetDeletions a b = remdups (filter (\<lambda>x. x \<notin> set b) a)"

subsection \<open>The data of \<^verbatim>\<open>fs_utils.go\<close>\<close>

record Directory =
  Root :: string
  Content :: "string list"

record DirectoryEntry =
  Name :: string
  Size :: int64

text \<open>\<^verbatim>\<open>EntryDiff\<close>; its \<^verbatim>\<open>Name\<close> is \<open>DiffName\<close> here, apart from \<^verbatim>\<open>DirectoryEntry.Name\<close>.\<close>

record EntryDiff =
  DiffName :: string
  Size1 :: int64
  Size2 :: int64

record DirDiff =
  Adds :: "DirectoryEntry list"
  Dels :: "DirectoryEntry list"
  Mods :: "EntryDiff list"

subsection \<open>Sizes\<close>

text \<open>
  \<^verbatim>\<open>getDirectorySize\<close>: its function literal, \<open>sizeWalkFn\<close> here, adds to the
  captured \<^verbatim>\<open>size\<close> (\<open>sz\<close>, starting at 0) and hands back the error it was given. It calls \<^verbatim>\<open>info.IsDir()\<close> before it looks at \<^verbatim>\<open>err\<close>: on a nil
  \<^verbatim>\<open>info\<close> that is a nil dereference.
\<close>

definition sizeWalkFn :: "int64 WalkFunc" where
  "sizeWalkFn info err sz =
     (case info of
        None \<Rightarrow> Panicked
      | Some i \<Rightarrow> Returned (if \<not> IsDir i then sz + StatSize i else sz, err))"

definition getDirectorySize :: "filesystem \<Rightarrow> string \<Rightarrow> (int64 \<times> error option) run" where
  "getDirectorySize fs path = Walk (Subtree fs path) sizeWalkFn 0"

text \<open>\<^verbatim>\<open>GetSize\<close>. The log lines have no effect on the result and are left out.\<close>

definition GetSize :: "filesystem \<Rightarrow> string \<Rightarrow> int64 run" where
  "GetSize fs path =
     (case Stat fs path of
        Inl err \<Rightarrow> Returned (- 1)
      | Inr stat \<Rightarrow>
          (if IsDir stat then
             (case getDirectorySize fs path of
                Panicked \<Rightarrow> Panicked
              | Returned (sz, err) \<Rightarrow> Returned sz)
           else Returned (StatSize stat)))"

subsection \<open>Comparing two files\<close>

text \<open>
  \<^verbatim>\<open>checkSameFile\<close> returns its Go pair (bool, error) and, beside it, the paths whose
  contents it read with \<^verbatim>\<open>ioutil.ReadFile\<close>, in the order of the calls: the file system
  is only read, so this list is the whole effect of the call that the claims speak of.
\<close>

definition checkSameFile ::
  "filesystem \<Rightarrow> string \<Rightarrow> string \<Rightarrow> (bool \<times> error option) \<times> string list" where
  "checkSameFile fs f1name f2name =
     (case Stat fs f1name of
        Inl err \<Rightarrow> ((False, Some err), [])
      | Inr f1stat \<Rightarrow>
          (case Stat fs f2name of
             Inl err \<Rightarrow> ((False, Some err), [])
           | Inr f2stat \<Rightarrow>
               (if StatSize f1stat \<noteq> StatSize f2stat then ((False, None), [])
                else
                  (case ReadFile fs f1name of
                     Inl err \<Rightarrow> ((False, Some err), [f1name])
                   | Inr f1 \<Rightarrow>
                       (case ReadFile fs f2name of
                          Inl err \<Rightarrow> ((False, Some err), [f1name, f2name])
                        | Inr f2 \<Rightarrow>
                            (if f1 \<noteq> f2 then ((False, None), [f1name, f2name])
                             else ((True, None), [f1name, f2name])))))))"

subsection \<open>Entries present on both sides\<close>

text \<open>
  The loop of \<^verbatim>\<open>GetModifiedEntries\<close> over \<^verbatim>\<open>filematches\<close>. Its state is the slice
  \<^verbatim>\<open>modified\<close> and the paths read so far; every \<^verbatim>\<open>continue\<close> is the recursive call on the
  rest with the state as it stands. \<^verbatim>\<open>fmt.Sprintf("%s%s", root, f)\<close> is concatenation.
\<close>

fun modifiedLoop ::
  "filesystem \<Rightarrow> string \<Rightarrow> string \<Rightarrow> string list \<Rightarrow> string list \<times> string list
     \<Rightarrow> string list \<times> string list" where
  "modifiedLoop fs root1 root2 [] (modified, reads) = (modified, reads)"
| "modifiedLoop fs root1 root2 (f # filematches) (modified, reads) =
     (let f1path = root1 @ f; f2path = root2 @ f in
      (case Stat fs f1path of
         Inl err \<Rightarrow> modifiedLoop fs root1 root2 filematches (modified, reads)
       | Inr f1stat \<Rightarrow>
           (case Stat fs f2path of
              Inl err \<Rightarrow> modifiedLoop fs root1 root2 filematches (modified, reads)
            | Inr f2stat \<Rightarrow>
                (if isTar fs f1path then
                   (if StatSize f1stat \<noteq> StatSize f2stat
                    then modifiedLoop fs root1 root2 filematches (modified @ [f], reads)
                    else modifiedLoop fs root1 root2 filematches (modified, reads))
                 else if \<not> IsDir f1stat then
                   (case checkSameFile fs f1path f2path of
                      ((same, Some err), rd) \<Rightarrow>
                        modifiedLoop fs root1 root2 filematches (modified, reads @ rd)
                    | ((same, None), rd) \<Rightarrow>
                        (if \<not> same
                         then modifiedLoop fs root1 root2 filematches (modified @ [f], reads @ rd)
                         else modifiedLoop fs root1 root2 filematches (modified, reads @ rd)))
                 else modifiedLoop fs root1 root2 filematches (modified, reads)))))"

text \<open>\<^verbatim>\<open>GetModifiedEntries\<close>: the slice \<^verbatim>\<open>modified\<close>, and beside it the paths read.\<close>

definition GetModifiedEntries ::
  "filesystem \<Rightarrow> Directory \<Rightarrow> Directory \<Rightarrow> string list \<times> string list" where
  "GetModifiedEntries fs d1 d2 =
     (let d1files = Content d1; d2files = Content d2;
          filematches = GetMatches d1files d2files
      in modifiedLoop fs (Root d1) (Root d2) filematches ([], []))"

definition GetAddedEntries :: "Directory \<Rightarrow> Directory \<Rightarrow> string list" where
  "GetAddedEntries d1 d2 = GetAdditions (Content d1) (Content d2)"

definition GetDeletedEntries :: "Directory \<Rightarrow> Directory \<Rightarrow> string list" where
  "GetDeletedEntries d1 d2 = GetDeletions (Content d1) (Content d2)"

subsection \<open>Entries with their sizes\<close>

text \<open>
  The loops of \<^verbatim>\<open>createDirectoryEntries\<close> and \<^verbatim>\<open>createEntryDiffs\<close> append to the
  named result \<^verbatim>\<open>entries\<close>; a panic inside \<^verbatim>\<open>GetSize\<close> ends them.
\<close>

fun entriesLoop ::
  "filesystem \<Rightarrow> string \<Rightarrow> string list \<Rightarrow> DirectoryEntry list \<Rightarrow> DirectoryEntry list run" where
  "entriesLoop fs root [] entries = Returned entries"
| "entriesLoop fs root (name # entryNames) entries =
     (let entryPath = Join fs root name in
      (case GetSize fs entryPath of
         Panicked \<Rightarrow> Panicked
       | Returned sz \<Rightarrow>
           (let entry = \<lparr>Name = name, Size = sz\<rparr>
            in entriesLoop fs root entryNames (entries @ [entry]))))"

definition createDirectoryEntries ::
  "filesystem \<Rightarrow> string \<Rightarrow> string list \<Rightarrow> DirectoryEntry list run" where
  "createDirectoryEntries fs root entryNames = entriesLoop fs root entryNames []"

definition GetDirectoryEntries :: "filesystem \<Rightarrow> Directory \<Rightarrow> DirectoryEntry list run" where
  "GetDirectoryEntries fs d = createDirectoryEntries fs (Root d) (Content d)"

fun entryDiffsLoop ::
  "filesystem \<Rightarrow> string \<Rightarrow> string \<Rightarrow> string list \<Rightarrow> EntryDiff list \<Rightarrow> EntryDiff list run" where
  "entryDiffsLoop fs root1 root2 [] entries = Returned entries"
| "entryDiffsLoop fs root1 root2 (name # entryNames) entries =
     (let entryPath1 = Join fs root1 name in
      (case GetSize fs entryPath1 of
         Panicked \<Rightarrow> Panicked
       | Returned size1 \<Rightarrow>
           (let entryPath2 = Join fs root2 name in
            (case GetSize fs entryPath2 of
               Panicked \<Rightarrow> Panicked
             | Returned size2 \<Rightarrow>
                 (let entry = \<lparr>DiffName = name, Size1 = size1, Size2 = size2\<rparr>
                  in entryDiffsLoop fs root1 root2 entryNames (entries @ [entry]))))))"

definition createEntryDiffs ::
  "filesystem \<Rightarrow> string \<Rightarrow> string \<Rightarrow> string list \<Rightarrow> EntryDiff list run" where
  "createEntryDiffs fs root1 root2 entryNames = entryDiffsLoop fs root1 root2 entryNames []"

subsection \<open>The directory diff\<close>

text \<open>
  \<^verbatim>\<open>DiffDirectory\<close>, statement by statement. It keeps the slice of
  \<^verbatim>\<open>GetModifiedEntries\<close> and has no use for the list of paths read.
\<close>

definition DiffDirectory :: "filesystem \<Rightarrow> Directory \<Rightarrow> Directory \<Rightarrow> (DirDiff \<times> bool) run" where
  "DiffDirectory fs d1 d2 =
     (let adds = sortStrings (GetAddedEntries d1 d2) in
      (case createDirectoryEntries fs (Root d2) adds of
         Panicked \<Rightarrow> Panicked
       | Returned addedEntries \<Rightarrow>
           (let dels = sortStrings (GetDeletedEntries d1 d2) in
            (case createDirectoryEntries fs (Root d1) dels of
               Panicked \<Rightarrow> Panicked
             | Returned deletedEntries \<Rightarrow>
                 (let mods = sortStrings (fst (GetModifiedEntries fs d1 d2)) in
                  (case createEntryDiffs fs (Root d1) (Root d2) mods of
                     Panicked \<Rightarrow> Panicked
                   | Returned modifiedEntries \<Rightarrow>
                       (let same = (if length adds = 0 \<and> length dels = 0 \<and> length mods = 0
                                    then True else False)
                        in Returned (\<lparr>Adds = addedEntries, Dels = deletedEntries,
                                       Mods = modifiedEntries\<rparr>, same))))))))"

section \<open>Notions the properties are stated and proved with\<close>

text \<open>
  One pass of the loop of \<^verbatim>\<open>GetModifiedEntries\<close>, read off its body: \<open>reported\<close> holds
  of an entry exactly when the pass reaches one of the two \<^verbatim>\<open>append\<close> statements, and
  \<open>entryReads\<close> are the paths whose contents the pass reads.
\<close>

definition reported :: "filesystem \<Rightarrow> string \<Rightarrow> string \<Rightarrow> string \<Rightarrow> bool" where
  "reported fs root1 root2 f =
     (case Stat fs (root1 @ f) of
        Inl err \<Rightarrow> False
      | Inr f1stat \<Rightarrow>
          (case Stat fs (root2 @ f) of
             Inl err \<Rightarrow> False
           | Inr f2stat \<Rightarrow>
               (if isTar fs (root1 @ f) then StatSize f1stat \<noteq> StatSize f2stat
                else \<not> IsDir f1stat \<and> fst (checkSameFile fs (root1 @ f) (root2 @ f)) = (False, None))))"

definition entryReads :: "filesystem \<Rightarrow> string \<Rightarrow> string \<Rightarrow> string \<Rightarrow> string list" where
  "entryReads fs root1 root2 f =
     (case Stat fs (root1 @ f) of
        Inl err \<Rightarrow> []
      | Inr f1stat \<Rightarrow>
          (case Stat fs (root2 @ f) of
             Inl err \<Rightarrow> []
           | Inr f2stat \<Rightarrow>
               (if isTar fs (root1 @ f) then []
                else if \<not> IsDir f1stat then snd (checkSameFile fs (root1 @ f) (root2 @ f))
                else [])))"

text \<open>
  Following the spec's words for a directory's size: the sum of the sizes of all
  non-directory descendants, directories contributing 0. The sum is in \<^verbatim>\<open>int64\<close>, as the
  code's is.
\<close>

fun sumOfFiles :: "tree \<Rightarrow> int64" where
  "sumOfFiles (NoEntry err) = 0"
| "sumOfFiles (Regular n) = n"
| "sumOfFiles (Locked n err) = 0"
| "sumOfFiles (Folder n names) = sum_list (map sumOfFiles names)"

text \<open>A tree in which the walk meets no error: every \<^verbatim>\<open>Lstat\<close> and every read of names succeeds.\<close>

fun intact :: "tree \<Rightarrow> bool" where
  "intact (NoEntry err) = False"
| "intact (Regular n) = True"
| "intact (Locked n err) = False"
| "intact (Folder n names) = list_all intact names"

section \<open>Two file systems for the concrete runs\<close>

text \<open>
  \<open>exampleFS\<close> holds two snapshots, under \<open>/old\<close> and \<open>/new\<close>: two archives of equal
  size and different bytes (\<open>a.tar\<close>), two of different sizes (\<open>b.tar\<close>), two files of
  equal size and different bytes (\<open>c\<close>), two of different sizes (\<open>d\<close>), a directory on
  the old side that is a file on the new side (\<open>sub\<close>), a path that is missing on the old
  side (\<open>gone\<close>), two files that cannot be read (\<open>locked\<close>), and one file on each side
  only. Its paths are clean, so \<^verbatim>\<open>filepath.Join\<close> of a root and a name is their
  concatenation; its \<^verbatim>\<open>isTar\<close> looks for the suffix \<open>.tar\<close>.
\<close>

definition notFound :: error where
  "notFound = ErrorString ''no such file or directory''"

definition exampleStat :: "(string \<times> FileInfo) list" where
  "exampleStat =
     [(''/old/a.tar'', \<lparr>IsDir = False, StatSize = 2\<rparr>), (''/new/a.tar'', \<lparr>IsDir = False, StatSize = 2\<rparr>),
      (''/old/b.tar'', \<lparr>IsDir = False, StatSize = 2\<rparr>), (''/new/b.tar'', \<lparr>IsDir = False, StatSize = 3\<rparr>),
      (''/old/c'', \<lparr>IsDir = False, StatSize = 3\<rparr>), (''/new/c'', \<lparr>IsDir = False, StatSize = 3\<rparr>),
      (''/old/d'', \<lparr>IsDir = False, StatSize = 3\<rparr>), (''/new/d'', \<lparr>IsDir = False, StatSize = 4\<rparr>),
      (''/old/sub'', \<lparr>IsDir = True, StatSize = 4096\<rparr>), (''/new/sub'', \<lparr>IsDir = False, StatSize = 9\<rparr>),
      (''/new/gone'', \<lparr>IsDir = False, StatSize = 1\<rparr>),
      (''/old/locked'', \<lparr>IsDir = False, StatSize = 2\<rparr>), (''/new/locked'', \<lparr>IsDir = False, StatSize = 2\<rparr>),
      (''/old/removed'', \<lparr>IsDir = False, StatSize = 20\<rparr>), (''/new/added'', \<lparr>IsDir = False, StatSize = 30\<rparr>)]"

definition exampleFiles :: "(string \<times> byte list) list" where
  "exampleFiles =
     [(''/old/a.tar'', [1, 2]), (''/new/a.tar'', [3, 4]),
      (''/old/b.tar'', [1, 2]), (''/new/b.tar'', [1, 2, 3]),
      (''/old/c'', [1, 2, 3]), (''/new/c'', [1, 2, 4]),
      (''/old/d'', [1, 2, 3]), (''/new/d'', [1, 2, 3, 4]),
      (''/new/sub'', [9, 9, 9, 9, 9, 9, 9, 9, 9]),
      (''/new/gone'', [0])]"

definition exampleFS :: filesystem where
  "exampleFS =
     \<lparr>Stat = (\<lambda>p. case map_of exampleStat p of None \<Rightarrow> Inl notFound | Some i \<Rightarrow> Inr i),
      ReadFile = (\<lambda>p. case map_of exampleFiles p of
                         None \<Rightarrow> Inl (ErrorString ''permission denied'') | Some c \<Rightarrow> Inr c),
      Subtree = (\<lambda>p. if p = ''/old/sub'' then Folder 4096 [Regular 5, Folder 4096 [Regular 7]]
                      else (case map_of exampleStat p of
                              None \<Rightarrow> NoEntry notFound | Some i \<Rightarrow> Regular (StatSize i))),
      Join = (\<lambda>root name. root @ name),
      isTar = (\<lambda>p. TrimSuffix p ''.tar'' \<noteq> p)\<rparr>"

definition oldDir :: Directory where
  "oldDir = \<lparr>Root = ''/old'',
             Content = [''/sub'', ''/a.tar'', ''/d'', ''/b.tar'', ''/c'', ''/gone'', ''/locked'', ''/removed'']\<rparr>"

definition newDir :: Directory where
  "newDir = \<lparr>Root = ''/new'',
             Content = [''/a.tar'', ''/b.tar'', ''/c'', ''/d'', ''/sub'', ''/gone'', ''/locked'', ''/added'']\<rparr>"

definition exampleDiff :: DirDiff where
  "exampleDiff =
     \<lparr>Adds = [\<lparr>Name = ''/added'', Size = 30\<rparr>],
      Dels = [\<lparr>Name = ''/removed'', Size = 20\<rparr>],
      Mods = [\<lparr>DiffName = ''/b.tar'', Size1 = 2, Size2 = 3\<rparr>,
              \<lparr>DiffName = ''/c'', Size1 = 3, Size2 = 3\<rparr>,
              \<lparr>DiffName = ''/d'', Size1 = 3, Size2 = 4\<rparr>]\<rparr>"

text \<open>
  \<open>faultyFS\<close> holds two directories whose walk meets an error: under \<open>/data\<close> a
  subdirectory whose names cannot be read, between two files; under \<open>/vanishing\<close> a
  name whose \<^verbatim>\<open>Lstat\<close> fails.
\<close>

definition faultyFS :: filesystem where
  "faultyFS =
     \<lparr>Stat = (\<lambda>p. if p = ''/data'' \<or> p = ''/vanishing''
                   then Inr \<lparr>IsDir = True, StatSize = 4096\<rparr> else Inl notFound),
      ReadFile = (\<lambda>p. Inl notFound),
      Subtree = (\<lambda>p. if p = ''/data''
                      then Folder 4096 [Regular 5, Locked 4096 (ErrorString ''permission denied''),
                                        Regular 7]
                      else if p = ''/vanishing''
                      then Folder 4096 [Regular 5, NoEntry notFound]
                      else NoEntry notFound),
      Join = (\<lambda>root name. root @ name),
      isTar = (\<lambda>p. TrimSuffix p ''.tar'' \<noteq> p)\<rparr>"

text \<open>
  Two snapshots for \<open>faultyFS\<close>, rooted at the empty path: one without entries and one
  that lists \<open>/data\<close>.
\<close>

definition emptyDir :: Directory where
  "emptyDir = \<lparr>Root = [], Content = []\<rparr>"

definition dataDir :: Directory where
  "dataDir = \<lparr>Root = [], Content = [''/data'']\<rparr>"

section \<open>Properties of the package differs\<close>

text \<open>
  Claim C3. Whatever the images and the analyzer, \<^verbatim>\<open>multiVersionDiff\<close> and
  \<^verbatim>\<open>singleVersionDiff\<close> never return a nil result. If the fetch of the first image's
  inventory fails, or the first succeeds and the second fails, they return that error
  together with the zero-value result struct; if both fetches succeed, they return a
  nil error and the result that carries the two sources, the label and the computed diff.
\<close>

theorem fetch_failure_zero_result:
  fixes differ :: "('inv, 'w) PackageAnalyzer" and diffFn :: "'inv \<Rightarrow> 'inv \<Rightarrow> 'd"
  shows
  "fst (fst (multiVersionDiff diffFn z image1 image2 differ w)) \<noteq> None \<and>
   fst (fst (singleVersionDiff diffFn z image1 image2 differ w)) \<noteq> None \<and>
   (\<forall>e w1. getPackages differ image1 w = (Inl e, w1) \<longrightarrow>
      fst (multiVersionDiff diffFn z image1 image2 differ w) = (Some (zeroResult z), Some e) \<and>
      fst (singleVersionDiff diffFn z image1 image2 differ w) = (Some (zeroResult z), Some e)) \<and>
   (\<forall>p1 w1 e w2. getPackages differ image1 w = (Inr p1, w1) \<and>
        getPackages differ image2 w1 = (Inl e, w2) \<longrightarrow>
      fst (multiVersionDiff diffFn z image1 image2 differ w) = (Some (zeroResult z), Some e) \<and>
      fst (singleVersionDiff diffFn z image1 image2 differ w) = (Some (zeroResult z), Some e)) \<and>
   (\<forall>p1 w1 p2 w2. getPackages differ image1 w = (Inr p1, w1) \<and>
        getPackages differ image2 w1 = (Inr p2, w2) \<longrightarrow>
      fst (multiVersionDiff diffFn z image1 image2 differ w) =
        (Some \<lparr>Image1 = Source image1, Image2 = Source image2,
               DiffType = TrimSuffix (AnalyzerName differ) ''Analyzer'', Diff = diffFn p1 p2\<rparr>, None) \<and>
      fst (singleVersionDiff diffFn z image1 image2 differ w) =
        (Some \<lparr>Image1 = Source image1, Image2 = Source image2,
               DiffType = TrimSuffix (AnalyzerName differ) ''Analyzer'', Diff = diffFn p1 p2\<rparr>, None))"
  by (auto simp: multiVersionDiff_def singleVersionDiff_def split: prod.splits sum.splits)

theorem fetch_failure_zero_result_witness:
  "fst (multiVersionDiff (@) [] \<lparr>Source = ''bad''\<rparr> \<lparr>Source = ''img2''\<rparr> aptAnalyzer 0) =
     (Some \<lparr>Image1 = [], Image2 = [], DiffType = [], Diff = []\<rparr>,
      Some (ErrorString ''no inventory'')) \<and>
   fst (singleVersionDiff (@) [] \<lparr>Source = ''img1''\<rparr> \<lparr>Source = ''bad''\<rparr> aptAnalyzer 0) =
     (Some \<lparr>Image1 = [], Image2 = [], DiffType = [], Diff = []\<rparr>,
      Some (ErrorString ''no inventory'')) \<and>
   fst (multiVersionDiff (@) [] \<lparr>Source = ''img1''\<rparr> \<lparr>Source = ''img2''\<rparr> aptAnalyzer 0) =
     (Some \<lparr>Image1 = ''img1'', Image2 = ''img2'', DiffType = ''Apt'',
            Diff = [''img1'', ''img2'']\<rparr>, None)"
proof -
  have bad: "getPackages aptAnalyzer \<lparr>Source = ''bad''\<rparr> n = (Inl (ErrorString ''no inventory''), Suc n)"
    for n by (simp add: aptAnalyzer_def)
  have ok1: "getPackages aptAnalyzer \<lparr>Source = ''img1''\<rparr> n = (Inr [''img1''], Suc n)"
    for n by (simp add: aptAnalyzer_def)
  have ok2: "getPackages aptAnalyzer \<lparr>Source = ''img2''\<rparr> n = (Inr [''img2''], Suc n)"
    for n by (simp add: aptAnalyzer_def)
  have name: "TrimSuffix (AnalyzerName aptAnalyzer) ''Analyzer'' = ''Apt''"
    by (simp add: aptAnalyzer_def TrimSuffix_def)
  note a = fetch_failure_zero_result
    [where differ = aptAnalyzer and diffFn = "(@)" and z = "[]" and w = 0
       and ?image1.0 = "\<lparr>Source = ''bad''\<rparr>" and ?image2.0 = "\<lparr>Source = ''img2''\<rparr>"]
  note b = fetch_failure_zero_result
    [where differ = aptAnalyzer and diffFn = "(@)" and z = "[]" and w = 0
       and ?image1.0 = "\<lparr>Source = ''img1''\<rparr>" and ?image2.0 = "\<lparr>Source = ''bad''\<rparr>"]
  note c = fetch_failure_zero_result
    [where differ = aptAnalyzer and diffFn = "(@)" and z = "[]" and w = 0
       and ?image1.0 = "\<lparr>Source = ''img1''\<rparr>" and ?image2.0 = "\<lparr>Source = ''img2''\<rparr>"]
  from a bad[of 0] have 1: "fst (multiVersionDiff (@) [] \<lparr>Source = ''bad''\<rparr> \<lparr>Source = ''img2''\<rparr> aptAnalyzer 0) =
     (Some (zeroResult []), Some (ErrorString ''no inventory''))" by blast
  from b ok1[of 0] bad[of "Suc 0"] have 2: "fst (singleVersionDiff (@) [] \<lparr>Source = ''img1''\<rparr> \<lparr>Source = ''bad''\<rparr> aptAnalyzer 0) =
     (Some (zeroResult []), Some (ErrorString ''no inventory''))" by blast
  from c ok1[of 0] ok2[of "Suc 0"] have 3: "fst (multiVersionDiff (@) [] \<lparr>Source = ''img1''\<rparr> \<lparr>Source = ''img2''\<rparr> aptAnalyzer 0) =
     (Some \<lparr>Image1 = Source \<lparr>Source = ''img1''\<rparr>, Image2 = Source \<lparr>Source = ''img2''\<rparr>,
               DiffType = TrimSuffix (AnalyzerName aptAnalyzer) ''Analyzer'', Diff = [''img1''] @ [''img2'']\<rparr>, None)" by blast
  from 1 2 3 name show ?thesis by (simp add: zeroResult_def)
qed

text \<open>
  Claim C10. If the fetch of the first image's inventory fails, the world is left as
  that first call left it: the functions do nothing more. Seen through \<open>logged\<close>, the
  only call of \<^verbatim>\<open>getPackages\<close> is the one on the first image; there is none on the
  second.
\<close>

theorem first_failure_stops:
  fixes differ :: "('inv, 'w) PackageAnalyzer" and diffFn :: "'inv \<Rightarrow> 'inv \<Rightarrow> 'd"
  assumes "getPackages differ image1 w = (Inl e, w1)"
  shows "snd (multiVersionDiff diffFn z image1 image2 differ w) = w1 \<and>
         snd (singleVersionDiff diffFn z image1 image2 differ w) = w1 \<and>
         snd (multiVersionDiff diffFn z image1 image2 (logged differ) (w, [])) = (w1, [image1]) \<and>
         snd (singleVersionDiff diffFn z image1 image2 (logged differ) (w, [])) = (w1, [image1])"
  using assms by (simp add: multiVersionDiff_def singleVersionDiff_def logged_def)

theorem first_failure_stops_witness:
  "snd (multiVersionDiff (@) [] \<lparr>Source = ''bad''\<rparr> \<lparr>Source = ''img2''\<rparr> aptAnalyzer 0) = 1 \<and>
   snd (singleVersionDiff (@) [] \<lparr>Source = ''bad''\<rparr> \<lparr>Source = ''img2''\<rparr> (logged aptAnalyzer) (0, [])) =
     (1, [\<lparr>Source = ''bad''\<rparr>])"
proof -
  have bad: "getPackages aptAnalyzer \<lparr>Source = ''bad''\<rparr> 0 = (Inl (ErrorString ''no inventory''), 1)"
    by (simp add: aptAnalyzer_def)
  from first_failure_stops[OF bad, where diffFn = "(@)" and z = "[]" and ?image2.0 = "\<lparr>Source = ''img2''\<rparr>"]
  show ?thesis by simp
qed

section \<open>Properties of the sizes\<close>

lemma walk_intact:
  "intact t \<Longrightarrow> walk t sizeWalkFn s = Returned (s + sumOfFiles t, None)"
  "list_all intact ts \<Longrightarrow> walkNames ts sizeWalkFn s = Returned (s + sum_list (map sumOfFiles ts), None)"
proof (induction t sizeWalkFn s and ts sizeWalkFn s rule: walk_walkNames.induct)
  case (1 err s)
  then show ?case by simp
next
  case (2 n s)
  then show ?case by (simp add: sizeWalkFn_def)
next
  case (3 n err s)
  then show ?case by simp
next
  case (4 n names s)
  then show ?case by (simp add: sizeWalkFn_def)
next
  case (5 s)
  then show ?case by simp
next
  case (6 t ts s)
  then show ?case by (simp add: add.assoc)
qed

lemma getDirectorySize_intact:
  "intact (Subtree fs path) \<Longrightarrow>
   getDirectorySize fs path = Returned (sumOfFiles (Subtree fs path), None)"
  by (simp add: getDirectorySize_def Walk_def walk_intact)

text \<open>
  What \<^verbatim>\<open>GetSize\<close> returns where nothing fails during a walk: the sentinel when the
  path cannot be stated, the stat size of a non-directory, and for a directory whose
  walk meets no error the sum of the sizes of the non-directories below it.
\<close>

lemma GetSize_cases:
  "(\<forall>err. Stat fs path = Inl err \<longrightarrow> GetSize fs path = Returned (- 1)) \<and>
   (\<forall>stat. Stat fs path = Inr stat \<and> \<not> IsDir stat \<longrightarrow> GetSize fs path = Returned (StatSize stat)) \<and>
   (\<forall>stat. Stat fs path = Inr stat \<and> IsDir stat \<and> intact (Subtree fs path) \<longrightarrow>
      GetSize fs path = Returned (sumOfFiles (Subtree fs path)))"
  by (simp add: GetSize_def getDirectorySize_intact)

lemma GetSize_Panicked:
  "GetSize fs p = Panicked \<Longrightarrow>
   \<exists>stat. Stat fs p = Inr stat \<and> IsDir stat \<and> \<not> intact (Subtree fs p)"
  by (auto simp: GetSize_def getDirectorySize_intact split: sum.splits if_splits)

text \<open>
  Claim C1 says that \<^verbatim>\<open>GetSize\<close> returns -1 on any stat or walk error and never fails
  its caller. The code does so for a failed \<^verbatim>\<open>os.Stat\<close> only. In \<open>faultyFS\<close> the walk
  of \<open>/data\<close> stops at the unreadable subdirectory with its error, after one file of
  size 5: \<^verbatim>\<open>GetSize\<close> logs the error and returns 5, the sum so far, not -1. The walk of
  \<open>/vanishing\<close> hands the closure a nil \<^verbatim>\<open>FileInfo\<close>, which it dereferences:
  \<^verbatim>\<open>GetSize\<close> panics.
\<close>

theorem GetSize_walk_error:
  "getDirectorySize faultyFS ''/data'' = Returned (5, Some (ErrorString ''permission denied'')) \<and>
   GetSize faultyFS ''/data'' = Returned 5 \<and>
   GetSize faultyFS ''/data'' \<noteq> Returned (- 1) \<and>
   GetSize faultyFS ''/vanishing'' = Panicked"
  by (simp add: GetSize_def getDirectorySize_def Walk_def sizeWalkFn_def faultyFS_def)

section \<open>Properties of the comparison of matched entries\<close>

lemma modifiedLoop_step:
  "modifiedLoop fs root1 root2 (f # filematches) (modified, reads) =
   modifiedLoop fs root1 root2 filematches
     (if reported fs root1 root2 f then modified @ [f] else modified,
      reads @ entryReads fs root1 root2 f)"
  by (auto simp: reported_def entryReads_def Let_def split: sum.splits prod.splits option.splits bool.splits)

lemma modifiedLoop_eq:
  "modifiedLoop fs root1 root2 filematches (modified, reads) =
   (modified @ filter (reported fs root1 root2) filematches,
    reads @ concat (map (entryReads fs root1 root2) filematches))"
proof (induction filematches arbitrary: modified reads)
  case Nil
  show ?case by simp
next
  case (Cons f filematches)
  show ?case unfolding modifiedLoop_step Cons.IH by simp
qed

lemma GetModifiedEntries_eq:
  "GetModifiedEntries fs d1 d2 =
   (filter (reported fs (Root d1) (Root d2)) (GetMatches (Content d1) (Content d2)),
    concat (map (entryReads fs (Root d1) (Root d2)) (GetMatches (Content d1) (Content d2))))"
  by (simp add: GetModifiedEntries_def modifiedLoop_eq Let_def)

lemma checkSameFile_sizes_differ:
  assumes "Stat fs f1name = Inr f1stat" and "Stat fs f2name = Inr f2stat"
    and "StatSize f1stat \<noteq> StatSize f2stat"
  shows "checkSameFile fs f1name f2name = ((False, None), [])"
  using assms by (simp add: checkSameFile_def)

lemma checkSameFile_differs_iff:
  assumes "Stat fs f1name = Inr f1stat" and "Stat fs f2name = Inr f2stat"
  shows "fst (checkSameFile fs f1name f2name) = (False, None) \<longleftrightarrow>
         StatSize f1stat \<noteq> StatSize f2stat \<or>
         (\<exists>c1 c2. ReadFile fs f1name = Inr c1 \<and> ReadFile fs f2name = Inr c2 \<and> c1 \<noteq> c2)"
  using assms by (auto simp: checkSameFile_def split: sum.splits)

lemma reads_of_entry:
  assumes "p \<in> set (entryReads fs root1 root2 f)"
  shows "\<not> isTar fs (root1 @ f) \<and> (p = root1 @ f \<or> p = root2 @ f)"
  using assms
  by (auto simp: entryReads_def checkSameFile_def split: sum.splits if_splits)

lemma not_reported_same_root: "\<not> reported fs root root f"
  by (auto simp: reported_def checkSameFile_def split: sum.splits)

lemmas example_defs =
  exampleFS_def exampleStat_def exampleFiles_def oldDir_def newDir_def TrimSuffix_def notFound_def

lemma example_matches:
  "GetMatches (Content oldDir) (Content newDir) =
     [''/sub'', ''/a.tar'', ''/d'', ''/b.tar'', ''/c'', ''/gone'', ''/locked'']"
  "GetMatches (Content newDir) (Content oldDir) =
     [''/a.tar'', ''/b.tar'', ''/c'', ''/d'', ''/sub'', ''/gone'', ''/locked'']"
  by (simp_all add: GetMatches_def oldDir_def newDir_def)

lemma example_modified:
  "fst (GetModifiedEntries exampleFS oldDir newDir) = [''/d'', ''/b.tar'', ''/c'']"
  by (simp add: GetModifiedEntries_def example_matches Let_def)
     (simp add: example_defs checkSameFile_def)

text \<open>
  Claim C2. Let \<open>f\<close> be an entry whose path under the first root has an archive name
  and whose two paths can be stated. If \<open>f\<close> is matched, \<^verbatim>\<open>GetModifiedEntries\<close> reports
  it modified exactly when the two stat sizes differ; the contents play no part. The
  pass of the loop over \<open>f\<close> appends \<open>f\<close> or not by the sizes alone and leaves the list
  of paths read as it was; and every path read by \<^verbatim>\<open>GetModifiedEntries\<close> belongs to a
  matched entry whose name is not an archive's.
\<close>

theorem archive_equal_by_size:
  assumes tar: "isTar fs (Root d1 @ f)"
    and s1: "Stat fs (Root d1 @ f) = Inr f1stat"
    and s2: "Stat fs (Root d2 @ f) = Inr f2stat"
  shows "(f \<in> set (GetMatches (Content d1) (Content d2)) \<longrightarrow>
            (f \<in> set (fst (GetModifiedEntries fs d1 d2)) \<longleftrightarrow>
             StatSize f1stat \<noteq> StatSize f2stat)) \<and>
         modifiedLoop fs (Root d1) (Root d2) (f # rest) (modified, reads) =
           modifiedLoop fs (Root d1) (Root d2) rest
             (if StatSize f1stat \<noteq> StatSize f2stat then modified @ [f] else modified, reads) \<and>
         (\<forall>p \<in> set (snd (GetModifiedEntries fs d1 d2)).
            \<exists>g \<in> set (GetMatches (Content d1) (Content d2)).
              \<not> isTar fs (Root d1 @ g) \<and> (p = Root d1 @ g \<or> p = Root d2 @ g))"
proof (intro conjI)
  have r: "reported fs (Root d1) (Root d2) f \<longleftrightarrow> StatSize f1stat \<noteq> StatSize f2stat"
    using tar s1 s2 by (simp add: reported_def)
  have e: "entryReads fs (Root d1) (Root d2) f = []"
    using tar s1 s2 by (simp add: entryReads_def)
  show "f \<in> set (GetMatches (Content d1) (Content d2)) \<longrightarrow>
          (f \<in> set (fst (GetModifiedEntries fs d1 d2)) \<longleftrightarrow> StatSize f1stat \<noteq> StatSize f2stat)"
    by (simp add: GetModifiedEntries_eq r)
  show "modifiedLoop fs (Root d1) (Root d2) (f # rest) (modified, reads) =
           modifiedLoop fs (Root d1) (Root d2) rest
             (if StatSize f1stat \<noteq> StatSize f2stat then modified @ [f] else modified, reads)"
    unfolding modifiedLoop_step by (simp add: r e)
  show "\<forall>p \<in> set (snd (GetModifiedEntries fs d1 d2)).
            \<exists>g \<in> set (GetMatches (Content d1) (Content d2)).
              \<not> isTar fs (Root d1 @ g) \<and> (p = Root d1 @ g \<or> p = Root d2 @ g)"
    unfolding GetModifiedEntries_eq using reads_of_entry by fastforce
qed

theorem archive_equal_by_size_witness:
  "''/a.tar'' \<notin> set (fst (GetModifiedEntries exampleFS oldDir newDir)) \<and>
   ReadFile exampleFS ''/old/a.tar'' = Inr [1, 2] \<and> ReadFile exampleFS ''/new/a.tar'' = Inr [3, 4] \<and>
   ''/b.tar'' \<in> set (fst (GetModifiedEntries exampleFS oldDir newDir))"
proof -
  have a: "isTar exampleFS (Root oldDir @ ''/a.tar'')"
    "Stat exampleFS (Root oldDir @ ''/a.tar'') = Inr \<lparr>IsDir = False, StatSize = 2\<rparr>"
    "Stat exampleFS (Root newDir @ ''/a.tar'') = Inr \<lparr>IsDir = False, StatSize = 2\<rparr>"
    by (simp_all add: example_defs)
  have b: "isTar exampleFS (Root oldDir @ ''/b.tar'')"
    "Stat exampleFS (Root oldDir @ ''/b.tar'') = Inr \<lparr>IsDir = False, StatSize = 2\<rparr>"
    "Stat exampleFS (Root newDir @ ''/b.tar'') = Inr \<lparr>IsDir = False, StatSize = 3\<rparr>"
    by (simp_all add: example_defs)
  have c: "ReadFile exampleFS ''/old/a.tar'' = Inr [1, 2]" "ReadFile exampleFS ''/new/a.tar'' = Inr [3, 4]"
    by (simp_all add: example_defs)
  from archive_equal_by_size [OF a] archive_equal_by_size [OF b] c show ?thesis
    by (simp add: example_matches)
qed

text \<open>
  Claim C4. Let \<open>f\<close> be a matched entry that is not archive-named, whose two paths can
  be stated and whose first path is not a directory. It is reported modified exactly when
  the two sizes differ or both contents can be read and differ. When the sizes differ,
  \<^verbatim>\<open>checkSameFile\<close> returns false with a nil error and has read no contents, and the
  pass of the loop appends \<open>f\<close> and reads nothing.
\<close>

theorem regular_file_by_size_and_content:
  assumes notar: "\<not> isTar fs (Root d1 @ f)"
    and s1: "Stat fs (Root d1 @ f) = Inr f1stat"
    and s2: "Stat fs (Root d2 @ f) = Inr f2stat"
    and nodir: "\<not> IsDir f1stat"
    and matched: "f \<in> set (GetMatches (Content d1) (Content d2))"
  shows "(f \<in> set (fst (GetModifiedEntries fs d1 d2)) \<longleftrightarrow>
            StatSize f1stat \<noteq> StatSize f2stat \<or>
            (\<exists>c1 c2. ReadFile fs (Root d1 @ f) = Inr c1 \<and> ReadFile fs (Root d2 @ f) = Inr c2 \<and>
                     c1 \<noteq> c2)) \<and>
         (StatSize f1stat \<noteq> StatSize f2stat \<longrightarrow>
            checkSameFile fs (Root d1 @ f) (Root d2 @ f) = ((False, None), []) \<and>
            modifiedLoop fs (Root d1) (Root d2) (f # rest) (modified, reads) =
              modifiedLoop fs (Root d1) (Root d2) rest (modified @ [f], reads))"
proof (intro conjI impI)
  have r: "reported fs (Root d1) (Root d2) f \<longleftrightarrow>
           fst (checkSameFile fs (Root d1 @ f) (Root d2 @ f)) = (False, None)"
    using notar s1 s2 nodir by (simp add: reported_def)
  show "f \<in> set (fst (GetModifiedEntries fs d1 d2)) \<longleftrightarrow>
            StatSize f1stat \<noteq> StatSize f2stat \<or>
            (\<exists>c1 c2. ReadFile fs (Root d1 @ f) = Inr c1 \<and> ReadFile fs (Root d2 @ f) = Inr c2 \<and>
                     c1 \<noteq> c2)"
    using matched by (simp add: GetModifiedEntries_eq r checkSameFile_differs_iff [OF s1 s2])
  assume d: "StatSize f1stat \<noteq> StatSize f2stat"
  show c: "checkSameFile fs (Root d1 @ f) (Root d2 @ f) = ((False, None), [])"
    by (rule checkSameFile_sizes_differ [OF s1 s2 d])
  have e: "entryReads fs (Root d1) (Root d2) f = []"
    using notar s1 s2 nodir c by (simp add: entryReads_def)
  show "modifiedLoop fs (Root d1) (Root d2) (f # rest) (modified, reads) =
              modifiedLoop fs (Root d1) (Root d2) rest (modified @ [f], reads)"
    unfolding modifiedLoop_step using r c e by simp
qed

theorem regular_file_by_size_and_content_witness:
  "''/c'' \<in> set (fst (GetModifiedEntries exampleFS oldDir newDir)) \<and>
   ''/d'' \<in> set (fst (GetModifiedEntries exampleFS oldDir newDir)) \<and>
   checkSameFile exampleFS ''/old/d'' ''/new/d'' = ((False, None), [])"
proof -
  have c: "\<not> isTar exampleFS (Root oldDir @ ''/c'')"
    "Stat exampleFS (Root oldDir @ ''/c'') = Inr \<lparr>IsDir = False, StatSize = 3\<rparr>"
    "Stat exampleFS (Root newDir @ ''/c'') = Inr \<lparr>IsDir = False, StatSize = 3\<rparr>"
    "\<not> IsDir \<lparr>IsDir = False, StatSize = 3\<rparr>"
    by (simp_all add: example_defs)
  have cm: "''/c'' \<in> set (GetMatches (Content oldDir) (Content newDir))"
    by (simp add: example_matches)
  have d: "\<not> isTar exampleFS (Root oldDir @ ''/d'')"
    "Stat exampleFS (Root oldDir @ ''/d'') = Inr \<lparr>IsDir = False, StatSize = 3\<rparr>"
    "Stat exampleFS (Root newDir @ ''/d'') = Inr \<lparr>IsDir = False, StatSize = 4\<rparr>"
    "\<not> IsDir \<lparr>IsDir = False, StatSize = 3\<rparr>"
    by (simp_all add: example_defs)
  have dm: "''/d'' \<in> set (GetMatches (Content oldDir) (Content newDir))"
    by (simp add: example_matches)
  have r: "ReadFile exampleFS (Root oldDir @ ''/c'') = Inr [1, 2, 3]"
    "ReadFile exampleFS (Root newDir @ ''/c'') = Inr [1, 2, 4]"
    "Root oldDir @ ''/d'' = ''/old/d''" "Root newDir @ ''/d'' = ''/new/d''"
    by (simp_all add: example_defs)
  from regular_file_by_size_and_content [OF c cm] regular_file_by_size_and_content [OF d dm] r
  show ?thesis by simp
qed

text \<open>
  Claim C5. If \<^verbatim>\<open>os.Stat\<close> of either path of an entry fails, or the entry is a
  non-archive, non-directory entry whose \<^verbatim>\<open>checkSameFile\<close> returns an error, then the
  entry is not in the list \<^verbatim>\<open>GetModifiedEntries\<close> returns, and the loop goes on: the
  pass over that entry leaves \<^verbatim>\<open>modified\<close> as it was and the remaining entries are
  compared as they would be without it. (The function returns no error at all: its
  result is the list.)
\<close>

theorem failed_entry_is_skipped:
  assumes fails:
    "(\<exists>err. Stat fs (Root d1 @ f) = Inl err) \<or>
     (\<exists>err. Stat fs (Root d2 @ f) = Inl err) \<or>
     (\<not> isTar fs (Root d1 @ f) \<and>
      (\<exists>f1stat. Stat fs (Root d1 @ f) = Inr f1stat \<and> \<not> IsDir f1stat) \<and>
      (\<exists>err. snd (fst (checkSameFile fs (Root d1 @ f) (Root d2 @ f))) = Some err))"
  shows "f \<notin> set (fst (GetModifiedEntries fs d1 d2)) \<and>
         fst (modifiedLoop fs (Root d1) (Root d2) (f # rest) (modified, reads)) =
           fst (modifiedLoop fs (Root d1) (Root d2) rest (modified, reads)) \<and>
         fst (modifiedLoop fs (Root d1) (Root d2) (f # rest) (modified, reads)) =
           modified @ fst (modifiedLoop fs (Root d1) (Root d2) rest ([], []))"
proof -
  have r: "\<not> reported fs (Root d1) (Root d2) f"
    using fails by (auto simp: reported_def split: sum.splits)
  show ?thesis
    unfolding modifiedLoop_step by (simp add: GetModifiedEntries_eq modifiedLoop_eq r)
qed

theorem failed_entry_is_skipped_witness:
  "''/gone'' \<notin> set (fst (GetModifiedEntries exampleFS oldDir newDir)) \<and>
   ''/gone'' \<notin> set (fst (GetModifiedEntries exampleFS newDir oldDir)) \<and>
   ''/locked'' \<notin> set (fst (GetModifiedEntries exampleFS oldDir newDir)) \<and>
   fst (GetModifiedEntries exampleFS oldDir newDir) = [''/d'', ''/b.tar'', ''/c'']"
proof -
  have g1: "(\<exists>err. Stat exampleFS (Root oldDir @ ''/gone'') = Inl err) \<or>
     (\<exists>err. Stat exampleFS (Root newDir @ ''/gone'') = Inl err) \<or>
     (\<not> isTar exampleFS (Root oldDir @ ''/gone'') \<and>
      (\<exists>f1stat. Stat exampleFS (Root oldDir @ ''/gone'') = Inr f1stat \<and> \<not> IsDir f1stat) \<and>
      (\<exists>err. snd (fst (checkSameFile exampleFS (Root oldDir @ ''/gone'') (Root newDir @ ''/gone''))) = Some err))"
    by (simp add: example_defs)
  have g2: "(\<exists>err. Stat exampleFS (Root newDir @ ''/gone'') = Inl err) \<or>
     (\<exists>err. Stat exampleFS (Root oldDir @ ''/gone'') = Inl err) \<or>
     (\<not> isTar exampleFS (Root newDir @ ''/gone'') \<and>
      (\<exists>f1stat. Stat exampleFS (Root newDir @ ''/gone'') = Inr f1stat \<and> \<not> IsDir f1stat) \<and>
      (\<exists>err. snd (fst (checkSameFile exampleFS (Root newDir @ ''/gone'') (Root oldDir @ ''/gone''))) = Some err))"
    by (simp add: example_defs)
  have l: "(\<exists>err. Stat exampleFS (Root oldDir @ ''/locked'') = Inl err) \<or>
     (\<exists>err. Stat exampleFS (Root newDir @ ''/locked'') = Inl err) \<or>
     (\<not> isTar exampleFS (Root oldDir @ ''/locked'') \<and>
      (\<exists>f1stat. Stat exampleFS (Root oldDir @ ''/locked'') = Inr f1stat \<and> \<not> IsDir f1stat) \<and>
      (\<exists>err. snd (fst (checkSameFile exampleFS (Root oldDir @ ''/locked'') (Root newDir @ ''/locked''))) = Some err))"
    by (simp add: example_defs checkSameFile_def)
  from failed_entry_is_skipped [OF g1] failed_entry_is_skipped [OF g2]
    failed_entry_is_skipped [OF l] example_modified
  show ?thesis by blast
qed

text \<open>
  Claim C9. For an entry that is not archive-named, the directory test reads the stat
  of the path under the first root only. If that path is a directory, the entry is never
  reported, whatever the path under the second root is, and the pass leaves the state
  of the loop unchanged. The other way round, a non-directory under the first root
  whose counterpart is a directory of another size is reported.
\<close>

theorem directory_in_first_is_skipped:
  assumes notar: "\<not> isTar fs (Root d1 @ f)"
  shows "(\<forall>f1stat. Stat fs (Root d1 @ f) = Inr f1stat \<and> IsDir f1stat \<longrightarrow>
            f \<notin> set (fst (GetModifiedEntries fs d1 d2)) \<and>
            modifiedLoop fs (Root d1) (Root d2) (f # rest) (modified, reads) =
              modifiedLoop fs (Root d1) (Root d2) rest (modified, reads)) \<and>
         (\<forall>f1stat f2stat. Stat fs (Root d1 @ f) = Inr f1stat \<and> \<not> IsDir f1stat \<and>
              Stat fs (Root d2 @ f) = Inr f2stat \<and> IsDir f2stat \<and>
              StatSize f1stat \<noteq> StatSize f2stat \<and>
              f \<in> set (GetMatches (Content d1) (Content d2)) \<longrightarrow>
            f \<in> set (fst (GetModifiedEntries fs d1 d2)))"
proof (intro conjI allI impI)
  fix f1stat
  assume a: "Stat fs (Root d1 @ f) = Inr f1stat \<and> IsDir f1stat"
  have r: "\<not> reported fs (Root d1) (Root d2) f"
    using notar a by (auto simp: reported_def split: sum.splits)
  have e: "entryReads fs (Root d1) (Root d2) f = []"
    using notar a by (auto simp: entryReads_def split: sum.splits)
  show "f \<notin> set (fst (GetModifiedEntries fs d1 d2))"
    by (simp add: GetModifiedEntries_eq r)
  show "modifiedLoop fs (Root d1) (Root d2) (f # rest) (modified, reads) =
              modifiedLoop fs (Root d1) (Root d2) rest (modified, reads)"
    unfolding modifiedLoop_step by (simp add: r e)
next
  fix f1stat f2stat
  assume a: "Stat fs (Root d1 @ f) = Inr f1stat \<and> \<not> IsDir f1stat \<and>
              Stat fs (Root d2 @ f) = Inr f2stat \<and> IsDir f2stat \<and>
              StatSize f1stat \<noteq> StatSize f2stat \<and>
              f \<in> set (GetMatches (Content d1) (Content d2))"
  then have "reported fs (Root d1) (Root d2) f"
    using notar by (simp add: reported_def checkSameFile_sizes_differ)
  with a show "f \<in> set (fst (GetModifiedEntries fs d1 d2))"
    by (simp add: GetModifiedEntries_eq)
qed

theorem directory_in_first_is_skipped_witness:
  "''/sub'' \<notin> set (fst (GetModifiedEntries exampleFS oldDir newDir)) \<and>
   Stat exampleFS ''/old/sub'' = Inr \<lparr>IsDir = True, StatSize = 4096\<rparr> \<and>
   Stat exampleFS ''/new/sub'' = Inr \<lparr>IsDir = False, StatSize = 9\<rparr> \<and>
   ''/sub'' \<in> set (fst (GetModifiedEntries exampleFS newDir oldDir))"
proof -
  have n1: "\<not> isTar exampleFS (Root oldDir @ ''/sub'')" and n2: "\<not> isTar exampleFS (Root newDir @ ''/sub'')"
    by (simp_all add: example_defs)
  have s: "Stat exampleFS (Root oldDir @ ''/sub'') = Inr \<lparr>IsDir = True, StatSize = 4096\<rparr>"
    "Stat exampleFS (Root newDir @ ''/sub'') = Inr \<lparr>IsDir = False, StatSize = 9\<rparr>"
    "Root oldDir @ ''/sub'' = ''/old/sub''" "Root newDir @ ''/sub'' = ''/new/sub''"
    by (simp_all add: example_defs)
  have m: "''/sub'' \<in> set (GetMatches (Content newDir) (Content oldDir))"
    by (simp add: example_matches)
  from directory_in_first_is_skipped [OF n1, of newDir] s
  have 1: "''/sub'' \<notin> set (fst (GetModifiedEntries exampleFS oldDir newDir))" by simp
  from directory_in_first_is_skipped [OF n2, of oldDir] s m
  have 2: "''/sub'' \<in> set (fst (GetModifiedEntries exampleFS newDir oldDir))" by simp
  from 1 2 s show ?thesis by simp
qed

section \<open>Properties of the directory diff\<close>

lemma entriesLoop_names:
  "entriesLoop fs root names acc = Returned es \<Longrightarrow> map Name es = map Name acc @ names"
proof (induction names arbitrary: acc)
  case Nil
  then show ?case by simp
next
  case (Cons name names)
  from Cons.prems obtain sz where
    l: "entriesLoop fs root names (acc @ [\<lparr>Name = name, Size = sz\<rparr>]) = Returned es"
    by (cases "GetSize fs (Join fs root name)") (simp_all add: Let_def)
  from Cons.IH [OF l] show ?case by simp
qed

lemma entriesLoop_sizes:
  "entriesLoop fs root names acc = Returned es \<Longrightarrow>
   \<forall>e \<in> set acc. GetSize fs (Join fs root (Name e)) = Returned (Size e) \<Longrightarrow>
   \<forall>e \<in> set es. GetSize fs (Join fs root (Name e)) = Returned (Size e)"
proof (induction names arbitrary: acc)
  case Nil
  then show ?case by simp
next
  case (Cons name names)
  from Cons.prems(1) obtain sz where
    g: "GetSize fs (Join fs root name) = Returned sz" and
    l: "entriesLoop fs root names (acc @ [\<lparr>Name = name, Size = sz\<rparr>]) = Returned es"
    by (cases "GetSize fs (Join fs root name)") (simp_all add: Let_def)
  have "\<forall>e \<in> set (acc @ [\<lparr>Name = name, Size = sz\<rparr>]).
          GetSize fs (Join fs root (Name e)) = Returned (Size e)"
    using Cons.prems(2) g by simp
  with Cons.IH [OF l] show ?case by blast
qed

lemma entriesLoop_returns:
  "\<forall>n \<in> set names. GetSize fs (Join fs root n) \<noteq> Panicked \<Longrightarrow>
   \<exists>es. entriesLoop fs root names acc = Returned es"
proof (induction names arbitrary: acc)
  case Nil
  then show ?case by simp
next
  case (Cons name names)
  then obtain sz where g: "GetSize fs (Join fs root name) = Returned sz"
    by (cases "GetSize fs (Join fs root name)") auto
  from Cons show ?case by (simp add: g Let_def)
qed

lemma entryDiffsLoop_names:
  "entryDiffsLoop fs root1 root2 names acc = Returned es \<Longrightarrow>
   map DiffName es = map DiffName acc @ names"
proof (induction names arbitrary: acc)
  case Nil
  then show ?case by simp
next
  case (Cons name names)
  from Cons.prems obtain size1 where
    g1: "GetSize fs (Join fs root1 name) = Returned size1"
    by (cases "GetSize fs (Join fs root1 name)") (simp_all add: Let_def)
  from Cons.prems g1 obtain size2 where
    l: "entryDiffsLoop fs root1 root2 names
          (acc @ [\<lparr>DiffName = name, Size1 = size1, Size2 = size2\<rparr>]) = Returned es"
    by (cases "GetSize fs (Join fs root2 name)") (simp_all add: Let_def)
  from Cons.IH [OF l] show ?case by simp
qed

lemma entryDiffsLoop_sizes:
  "entryDiffsLoop fs root1 root2 names acc = Returned es \<Longrightarrow>
   \<forall>e \<in> set acc. GetSize fs (Join fs root1 (DiffName e)) = Returned (Size1 e) \<and>
                  GetSize fs (Join fs root2 (DiffName e)) = Returned (Size2 e) \<Longrightarrow>
   \<forall>e \<in> set es. GetSize fs (Join fs root1 (DiffName e)) = Returned (Size1 e) \<and>
                 GetSize fs (Join fs root2 (DiffName e)) = Returned (Size2 e)"
proof (induction names arbitrary: acc)
  case Nil
  then show ?case by simp
next
  case (Cons name names)
  from Cons.prems(1) obtain size1 where
    g1: "GetSize fs (Join fs root1 name) = Returned size1"
    by (cases "GetSize fs (Join fs root1 name)") (simp_all add: Let_def)
  from Cons.prems(1) g1 obtain size2 where
    g2: "GetSize fs (Join fs root2 name) = Returned size2" and
    l: "entryDiffsLoop fs root1 root2 names
          (acc @ [\<lparr>DiffName = name, Size1 = size1, Size2 = size2\<rparr>]) = Returned es"
    by (cases "GetSize fs (Join fs root2 name)") (simp_all add: Let_def)
  have "\<forall>e \<in> set (acc @ [\<lparr>DiffName = name, Size1 = size1, Size2 = size2\<rparr>]).
          GetSize fs (Join fs root1 (DiffName e)) = Returned (Size1 e) \<and>
          GetSize fs (Join fs root2 (DiffName e)) = Returned (Size2 e)"
    using Cons.prems(2) g1 g2 by simp
  with Cons.IH [OF l] show ?case by blast
qed

lemma entryDiffsLoop_returns:
  "\<forall>n \<in> set names. GetSize fs (Join fs root1 n) \<noteq> Panicked \<and>
                     GetSize fs (Join fs root2 n) \<noteq> Panicked \<Longrightarrow>
   \<exists>es. entryDiffsLoop fs root1 root2 names acc = Returned es"
proof (induction names arbitrary: acc)
  case Nil
  then show ?case by simp
next
  case (Cons name names)
  then obtain size1 size2 where
    g: "GetSize fs (Join fs root1 name) = Returned size1"
       "GetSize fs (Join fs root2 name) = Returned size2"
    by (cases "GetSize fs (Join fs root1 name)"; cases "GetSize fs (Join fs root2 name)") auto
  from Cons show ?case by (simp add: g Let_def)
qed

lemma DiffDirectory_Returned:
  assumes r: "DiffDirectory fs d1 d2 = Returned (dd, same)"
  shows "map Name (Adds dd) = sortStrings (GetAddedEntries d1 d2)"
    and "map Name (Dels dd) = sortStrings (GetDeletedEntries d1 d2)"
    and "map DiffName (Mods dd) = sortStrings (fst (GetModifiedEntries fs d1 d2))"
    and "\<forall>e \<in> set (Adds dd). GetSize fs (Join fs (Root d2) (Name e)) = Returned (Size e)"
    and "\<forall>e \<in> set (Dels dd). GetSize fs (Join fs (Root d1) (Name e)) = Returned (Size e)"
    and "\<forall>e \<in> set (Mods dd). GetSize fs (Join fs (Root d1) (DiffName e)) = Returned (Size1 e) \<and>
                             GetSize fs (Join fs (Root d2) (DiffName e)) = Returned (Size2 e)"
    and "same \<longleftrightarrow> sortStrings (GetAddedEntries d1 d2) = [] \<and>
                 sortStrings (GetDeletedEntries d1 d2) = [] \<and>
                 sortStrings (fst (GetModifiedEntries fs d1 d2)) = []"
proof -
  note defs = DiffDirectory_def createDirectoryEntries_def createEntryDiffs_def Let_def
  obtain a where
    a: "entriesLoop fs (Root d2) (sortStrings (GetAddedEntries d1 d2)) [] = Returned a"
    using r by (cases "entriesLoop fs (Root d2) (sortStrings (GetAddedEntries d1 d2)) []")
               (simp_all add: defs)
  obtain b where
    b: "entriesLoop fs (Root d1) (sortStrings (GetDeletedEntries d1 d2)) [] = Returned b"
    using r a by (cases "entriesLoop fs (Root d1) (sortStrings (GetDeletedEntries d1 d2)) []")
                 (simp_all add: defs)
  obtain c where
    c: "entryDiffsLoop fs (Root d1) (Root d2) (sortStrings (fst (GetModifiedEntries fs d1 d2))) []
          = Returned c"
    using r a b
    by (cases "entryDiffsLoop fs (Root d1) (Root d2)
                 (sortStrings (fst (GetModifiedEntries fs d1 d2))) []")
       (simp_all add: defs)
  from r a b c have dd: "dd = \<lparr>Adds = a, Dels = b, Mods = c\<rparr>"
    by (simp add: defs)
  from r a b c show "same \<longleftrightarrow> sortStrings (GetAddedEntries d1 d2) = [] \<and>
                 sortStrings (GetDeletedEntries d1 d2) = [] \<and>
                 sortStrings (fst (GetModifiedEntries fs d1 d2)) = []"
    by (simp add: defs split: if_splits)
  from entriesLoop_names [OF a] show "map Name (Adds dd) = sortStrings (GetAddedEntries d1 d2)"
    by (simp add: dd)
  from entriesLoop_names [OF b] show "map Name (Dels dd) = sortStrings (GetDeletedEntries d1 d2)"
    by (simp add: dd)
  from entryDiffsLoop_names [OF c]
  show "map DiffName (Mods dd) = sortStrings (fst (GetModifiedEntries fs d1 d2))"
    by (simp add: dd)
  from entriesLoop_sizes [OF a]
  show "\<forall>e \<in> set (Adds dd). GetSize fs (Join fs (Root d2) (Name e)) = Returned (Size e)"
    by (simp add: dd)
  from entriesLoop_sizes [OF b]
  show "\<forall>e \<in> set (Dels dd). GetSize fs (Join fs (Root d1) (Name e)) = Returned (Size e)"
    by (simp add: dd)
  from entryDiffsLoop_sizes [OF c]
  show "\<forall>e \<in> set (Mods dd). GetSize fs (Join fs (Root d1) (DiffName e)) = Returned (Size1 e) \<and>
                             GetSize fs (Join fs (Root d2) (DiffName e)) = Returned (Size2 e)"
    by (simp add: dd)
qed

lemma DiffDirectory_returns:
  assumes "\<forall>p. GetSize fs p \<noteq> Panicked"
  shows "\<exists>dd same. DiffDirectory fs d1 d2 = Returned (dd, same)"
proof -
  from assms entriesLoop_returns obtain a where
    a: "entriesLoop fs (Root d2) (sortStrings (GetAddedEntries d1 d2)) [] = Returned a"
    by blast
  from assms entriesLoop_returns obtain b where
    b: "entriesLoop fs (Root d1) (sortStrings (GetDeletedEntries d1 d2)) [] = Returned b"
    by blast
  from assms entryDiffsLoop_returns obtain c where
    c: "entryDiffsLoop fs (Root d1) (Root d2) (sortStrings (fst (GetModifiedEntries fs d1 d2))) []
          = Returned c"
    by blast
  show ?thesis
    by (simp add: DiffDirectory_def createDirectoryEntries_def createEntryDiffs_def Let_def a b c)
qed

lemma DiffDirectory_returns_local:
  assumes a: "\<forall>n \<in> set (GetAddedEntries d1 d2). GetSize fs (Join fs (Root d2) n) \<noteq> Panicked"
    and b: "\<forall>n \<in> set (GetDeletedEntries d1 d2). GetSize fs (Join fs (Root d1) n) \<noteq> Panicked"
    and c: "\<forall>n \<in> set (fst (GetModifiedEntries fs d1 d2)).
              GetSize fs (Join fs (Root d1) n) \<noteq> Panicked \<and>
              GetSize fs (Join fs (Root d2) n) \<noteq> Panicked"
  shows "\<exists>dd same. DiffDirectory fs d1 d2 = Returned (dd, same)"
proof -
  from a have "\<forall>n \<in> set (sortStrings (GetAddedEntries d1 d2)).
                 GetSize fs (Join fs (Root d2) n) \<noteq> Panicked"
    by (simp add: sortStrings_def)
  from entriesLoop_returns [OF this] obtain x where
    x: "entriesLoop fs (Root d2) (sortStrings (GetAddedEntries d1 d2)) [] = Returned x"
    by blast
  from b have "\<forall>n \<in> set (sortStrings (GetDeletedEntries d1 d2)).
                 GetSize fs (Join fs (Root d1) n) \<noteq> Panicked"
    by (simp add: sortStrings_def)
  from entriesLoop_returns [OF this] obtain y where
    y: "entriesLoop fs (Root d1) (sortStrings (GetDeletedEntries d1 d2)) [] = Returned y"
    by blast
  from c have "\<forall>n \<in> set (sortStrings (fst (GetModifiedEntries fs d1 d2))).
                 GetSize fs (Join fs (Root d1) n) \<noteq> Panicked \<and>
                 GetSize fs (Join fs (Root d2) n) \<noteq> Panicked"
    by (simp add: sortStrings_def)
  from entryDiffsLoop_returns [OF this] obtain z where
    z: "entryDiffsLoop fs (Root d1) (Root d2) (sortStrings (fst (GetModifiedEntries fs d1 d2))) []
          = Returned z"
    by blast
  show ?thesis
    by (simp add: DiffDirectory_def createDirectoryEntries_def createEntryDiffs_def Let_def x y z)
qed

lemma DiffDirectory_Returned_no_panic:
  assumes r: "DiffDirectory fs d1 d2 = Returned (dd, same)"
  shows "\<forall>n \<in> set (GetAddedEntries d1 d2). GetSize fs (Join fs (Root d2) n) \<noteq> Panicked"
    and "\<forall>n \<in> set (GetDeletedEntries d1 d2). GetSize fs (Join fs (Root d1) n) \<noteq> Panicked"
    and "\<forall>n \<in> set (fst (GetModifiedEntries fs d1 d2)).
              GetSize fs (Join fs (Root d1) n) \<noteq> Panicked \<and>
              GetSize fs (Join fs (Root d2) n) \<noteq> Panicked"
proof -
  note R = DiffDirectory_Returned [OF r]
  have sa: "set (GetAddedEntries d1 d2) = Name ` set (Adds dd)"
    using R(1) by (metis set_map set_sort sortStrings_def)
  have sb: "set (GetDeletedEntries d1 d2) = Name ` set (Dels dd)"
    using R(2) by (metis set_map set_sort sortStrings_def)
  have sc: "set (fst (GetModifiedEntries fs d1 d2)) = DiffName ` set (Mods dd)"
    using R(3) by (metis set_map set_sort sortStrings_def)
  show "\<forall>n \<in> set (GetAddedEntries d1 d2). GetSize fs (Join fs (Root d2) n) \<noteq> Panicked"
    unfolding sa using R(4) by auto
  show "\<forall>n \<in> set (GetDeletedEntries d1 d2). GetSize fs (Join fs (Root d1) n) \<noteq> Panicked"
    unfolding sb using R(5) by auto
  show "\<forall>n \<in> set (fst (GetModifiedEntries fs d1 d2)).
              GetSize fs (Join fs (Root d1) n) \<noteq> Panicked \<and>
              GetSize fs (Join fs (Root d2) n) \<noteq> Panicked"
    unfolding sc using R(6) by auto
qed

lemma exampleFS_no_panic: "GetSize exampleFS p \<noteq> Panicked"
proof
  assume "GetSize exampleFS p = Panicked"
  from GetSize_Panicked [OF this] obtain stat where
    "Stat exampleFS p = Inr stat" "IsDir stat" "\<not> intact (Subtree exampleFS p)"
    by blast
  then show False
    by (auto simp: exampleFS_def exampleStat_def split: if_splits)
qed

lemma example_added_deleted:
  "GetAddedEntries oldDir newDir = [''/added'']"
  "GetDeletedEntries oldDir newDir = [''/removed'']"
  by (simp_all add: GetAddedEntries_def GetDeletedEntries_def GetAdditions_def GetDeletions_def
        oldDir_def newDir_def)

lemma example_sizes:
  "GetSize exampleFS ''/new/added'' = Returned 30"
  "GetSize exampleFS ''/old/removed'' = Returned 20"
  "GetSize exampleFS ''/old/b.tar'' = Returned 2"
  "GetSize exampleFS ''/new/b.tar'' = Returned 3"
  "GetSize exampleFS ''/old/c'' = Returned 3"
  "GetSize exampleFS ''/new/c'' = Returned 3"
  "GetSize exampleFS ''/old/d'' = Returned 3"
  "GetSize exampleFS ''/new/d'' = Returned 4"
  by (simp_all add: GetSize_def exampleFS_def exampleStat_def)

lemma example_diff:
  "DiffDirectory exampleFS oldDir newDir = Returned (exampleDiff, False)"
proof -
  have j: "Join exampleFS = (\<lambda>root name. root @ name)" by (simp add: exampleFS_def)
  have r: "Root oldDir = ''/old''" "Root newDir = ''/new''" by (simp_all add: oldDir_def newDir_def)
  show ?thesis
    by (simp add: DiffDirectory_def example_added_deleted example_modified sortStrings_def
          createDirectoryEntries_def createEntryDiffs_def j r example_sizes exampleDiff_def)
qed

text \<open>
  Claim C6. Whenever \<^verbatim>\<open>DiffDirectory\<close> returns, its boolean is true exactly when the
  three sequences of the returned \<^verbatim>\<open>DirDiff\<close> are empty. It returns in every file
  system in which no \<^verbatim>\<open>GetSize\<close> panics.
\<close>

theorem same_iff_all_empty:
  "(\<forall>dd same. DiffDirectory fs d1 d2 = Returned (dd, same) \<longrightarrow>
      (same \<longleftrightarrow> Adds dd = [] \<and> Dels dd = [] \<and> Mods dd = [])) \<and>
   ((\<forall>p. GetSize fs p \<noteq> Panicked) \<longrightarrow> (\<exists>dd same. DiffDirectory fs d1 d2 = Returned (dd, same)))"
proof (intro conjI allI impI)
  fix dd same
  assume r: "DiffDirectory fs d1 d2 = Returned (dd, same)"
  have "Adds dd = [] \<longleftrightarrow> sortStrings (GetAddedEntries d1 d2) = []"
    using DiffDirectory_Returned(1) [OF r] by (metis map_is_Nil_conv)
  moreover have "Dels dd = [] \<longleftrightarrow> sortStrings (GetDeletedEntries d1 d2) = []"
    using DiffDirectory_Returned(2) [OF r] by (metis map_is_Nil_conv)
  moreover have "Mods dd = [] \<longleftrightarrow> sortStrings (fst (GetModifiedEntries fs d1 d2)) = []"
    using DiffDirectory_Returned(3) [OF r] by (metis map_is_Nil_conv)
  ultimately show "same \<longleftrightarrow> Adds dd = [] \<and> Dels dd = [] \<and> Mods dd = []"
    using DiffDirectory_Returned(7) [OF r] by simp
next
  assume "\<forall>p. GetSize fs p \<noteq> Panicked"
  then show "\<exists>dd same. DiffDirectory fs d1 d2 = Returned (dd, same)"
    by (rule DiffDirectory_returns)
qed

theorem same_iff_all_empty_witness:
  "DiffDirectory exampleFS oldDir newDir = Returned (exampleDiff, False) \<and>
   \<not> (Adds exampleDiff = [] \<and> Dels exampleDiff = [] \<and> Mods exampleDiff = []) \<and>
   (\<exists>dd. DiffDirectory exampleFS oldDir oldDir = Returned (dd, True) \<and>
         Adds dd = [] \<and> Dels dd = [] \<and> Mods dd = [])"
proof -
  note t1 = same_iff_all_empty [of exampleFS oldDir newDir]
  note t2 = same_iff_all_empty [of exampleFS oldDir oldDir]
  have np: "\<forall>p. GetSize exampleFS p \<noteq> Panicked" by (simp add: exampleFS_no_panic)
  from t2 np obtain dd same where r: "DiffDirectory exampleFS oldDir oldDir = Returned (dd, same)"
    by blast
  have "GetAddedEntries oldDir oldDir = []"
    by (simp add: GetAddedEntries_def GetAdditions_def)
  with DiffDirectory_Returned(1) [OF r] have "Adds dd = []" by (simp add: sortStrings_def)
  moreover have "GetDeletedEntries oldDir oldDir = []"
    by (simp add: GetDeletedEntries_def GetDeletions_def)
  with DiffDirectory_Returned(2) [OF r] have "Dels dd = []" by (simp add: sortStrings_def)
  moreover have "fst (GetModifiedEntries exampleFS oldDir oldDir) = []"
    by (simp add: GetModifiedEntries_eq not_reported_same_root)
  with DiffDirectory_Returned(3) [OF r] have "Mods dd = []" by (simp add: sortStrings_def)
  ultimately have e: "Adds dd = [] \<and> Dels dd = [] \<and> Mods dd = []" by simp
  with t2 r have "same" by blast
  with r e have 2: "\<exists>dd. DiffDirectory exampleFS oldDir oldDir = Returned (dd, True) \<and>
         Adds dd = [] \<and> Dels dd = [] \<and> Mods dd = []" by auto
  from t1 example_diff
  have 1: "\<not> (Adds exampleDiff = [] \<and> Dels exampleDiff = [] \<and> Mods exampleDiff = [])" by blast
  from 1 2 example_diff show ?thesis by blast
qed

text \<open>
  Claim C7. Whenever \<^verbatim>\<open>DiffDirectory\<close> returns, the names of its added, deleted and
  modified entries are in increasing order and are the added, deleted and modified
  names; each added entry carries the size \<^verbatim>\<open>GetSize\<close> finds under the second root,
  each deleted entry the size under the first root, and each modified entry both. And
  it returns exactly when \<^verbatim>\<open>GetSize\<close> panics at none of those paths: the added names
  under the second root, the deleted names under the first, the modified names under
  both. What the file system holds elsewhere plays no part.
\<close>

theorem diff_sorted_with_sizes:
  "(\<forall>dd same. DiffDirectory fs d1 d2 = Returned (dd, same) \<longrightarrow>
      sorted (map Name (Adds dd)) \<and> sorted (map Name (Dels dd)) \<and> sorted (map DiffName (Mods dd)) \<and>
      set (map Name (Adds dd)) = set (GetAddedEntries d1 d2) \<and>
      set (map Name (Dels dd)) = set (GetDeletedEntries d1 d2) \<and>
      set (map DiffName (Mods dd)) = set (fst (GetModifiedEntries fs d1 d2)) \<and>
      (\<forall>e \<in> set (Adds dd). GetSize fs (Join fs (Root d2) (Name e)) = Returned (Size e)) \<and>
      (\<forall>e \<in> set (Dels dd). GetSize fs (Join fs (Root d1) (Name e)) = Returned (Size e)) \<and>
      (\<forall>e \<in> set (Mods dd). GetSize fs (Join fs (Root d1) (DiffName e)) = Returned (Size1 e) \<and>
                             GetSize fs (Join fs (Root d2) (DiffName e)) = Returned (Size2 e))) \<and>
   ((\<exists>dd same. DiffDirectory fs d1 d2 = Returned (dd, same)) \<longleftrightarrow>
      (\<forall>n \<in> set (GetAddedEntries d1 d2). GetSize fs (Join fs (Root d2) n) \<noteq> Panicked) \<and>
      (\<forall>n \<in> set (GetDeletedEntries d1 d2). GetSize fs (Join fs (Root d1) n) \<noteq> Panicked) \<and>
      (\<forall>n \<in> set (fst (GetModifiedEntries fs d1 d2)).
          GetSize fs (Join fs (Root d1) n) \<noteq> Panicked \<and>
          GetSize fs (Join fs (Root d2) n) \<noteq> Panicked))"
proof (intro conjI allI impI iffI)
  fix dd same
  assume r: "DiffDirectory fs d1 d2 = Returned (dd, same)"
  note R = DiffDirectory_Returned [OF r]
  show "sorted (map Name (Adds dd))" by (simp add: R(1) sortStrings_def)
  show "sorted (map Name (Dels dd))" by (simp add: R(2) sortStrings_def)
  show "sorted (map DiffName (Mods dd))" by (simp add: R(3) sortStrings_def)
  show "set (map Name (Adds dd)) = set (GetAddedEntries d1 d2)" by (simp only: R(1) sortStrings_def set_sort)
  show "set (map Name (Dels dd)) = set (GetDeletedEntries d1 d2)" by (simp only: R(2) sortStrings_def set_sort)
  show "set (map DiffName (Mods dd)) = set (fst (GetModifiedEntries fs d1 d2))" by (simp only: R(3) sortStrings_def set_sort)
  show "\<forall>e \<in> set (Adds dd). GetSize fs (Join fs (Root d2) (Name e)) = Returned (Size e)" by (rule R(4))
  show "\<forall>e \<in> set (Dels dd). GetSize fs (Join fs (Root d1) (Name e)) = Returned (Size e)" by (rule R(5))
  show "\<forall>e \<in> set (Mods dd). GetSize fs (Join fs (Root d1) (DiffName e)) = Returned (Size1 e) \<and>
                             GetSize fs (Join fs (Root d2) (DiffName e)) = Returned (Size2 e)" by (rule R(6))
next
  assume "\<exists>dd same. DiffDirectory fs d1 d2 = Returned (dd, same)"
  then obtain dd same where r: "DiffDirectory fs d1 d2 = Returned (dd, same)" by blast
  show "\<forall>n \<in> set (GetAddedEntries d1 d2). GetSize fs (Join fs (Root d2) n) \<noteq> Panicked"
    by (rule DiffDirectory_Returned_no_panic(1) [OF r])
  show "\<forall>n \<in> set (GetDeletedEntries d1 d2). GetSize fs (Join fs (Root d1) n) \<noteq> Panicked"
    by (rule DiffDirectory_Returned_no_panic(2) [OF r])
  show "\<forall>n \<in> set (fst (GetModifiedEntries fs d1 d2)).
          GetSize fs (Join fs (Root d1) n) \<noteq> Panicked \<and>
          GetSize fs (Join fs (Root d2) n) \<noteq> Panicked"
    by (rule DiffDirectory_Returned_no_panic(3) [OF r])
next
  assume "(\<forall>n \<in> set (GetAddedEntries d1 d2). GetSize fs (Join fs (Root d2) n) \<noteq> Panicked) \<and>
      (\<forall>n \<in> set (GetDeletedEntries d1 d2). GetSize fs (Join fs (Root d1) n) \<noteq> Panicked) \<and>
      (\<forall>n \<in> set (fst (GetModifiedEntries fs d1 d2)).
          GetSize fs (Join fs (Root d1) n) \<noteq> Panicked \<and>
          GetSize fs (Join fs (Root d2) n) \<noteq> Panicked)"
  then show "\<exists>dd same. DiffDirectory fs d1 d2 = Returned (dd, same)"
    using DiffDirectory_returns_local by blast
qed

theorem diff_sorted_with_sizes_witness:
  "DiffDirectory exampleFS oldDir newDir = Returned (exampleDiff, False) \<and>
   map DiffName (Mods exampleDiff) = [''/b.tar'', ''/c'', ''/d''] \<and>
   sorted (map DiffName (Mods exampleDiff)) \<and>
   GetSize exampleFS (Join exampleFS (Root newDir) ''/added'') = Returned 30 \<and>
   GetSize exampleFS (Join exampleFS (Root oldDir) ''/removed'') = Returned 20 \<and>
   GetSize faultyFS ''/vanishing'' = Panicked \<and>
   (\<exists>dd same. DiffDirectory faultyFS emptyDir dataDir = Returned (dd, same) \<and>
      map Name (Adds dd) = [''/data''] \<and>
      GetSize faultyFS (Join faultyFS (Root dataDir) ''/data'') = Returned 5) \<and>
   DiffDirectory faultyFS emptyDir \<lparr>Root = [], Content = [''/vanishing'']\<rparr> = Panicked"
proof -
  note t1 = diff_sorted_with_sizes [of exampleFS oldDir newDir]
  note t2 = diff_sorted_with_sizes [of faultyFS emptyDir dataDir]
  note t3 = diff_sorted_with_sizes [of faultyFS emptyDir "\<lparr>Root = [], Content = [''/vanishing'']\<rparr>"]
  have v: "GetSize faultyFS ''/vanishing'' = Panicked"
    and g: "GetSize faultyFS ''/data'' = Returned 5"
    by (simp_all add: GetSize_def getDirectorySize_def Walk_def sizeWalkFn_def faultyFS_def)
  have j: "Join faultyFS = (\<lambda>root name. root @ name)" by (simp add: faultyFS_def)
  have ad: "GetAddedEntries emptyDir dataDir = [''/data'']"
    "GetDeletedEntries emptyDir dataDir = []"
    "fst (GetModifiedEntries faultyFS emptyDir dataDir) = []"
    "Root dataDir = []" "Root emptyDir = []"
    by (simp_all add: GetAddedEntries_def GetDeletedEntries_def GetAdditions_def GetDeletions_def
          GetModifiedEntries_def GetMatches_def emptyDir_def dataDir_def)
  have loc: "(\<forall>n \<in> set (GetAddedEntries emptyDir dataDir).
                 GetSize faultyFS (Join faultyFS (Root dataDir) n) \<noteq> Panicked) \<and>
      (\<forall>n \<in> set (GetDeletedEntries emptyDir dataDir).
                 GetSize faultyFS (Join faultyFS (Root emptyDir) n) \<noteq> Panicked) \<and>
      (\<forall>n \<in> set (fst (GetModifiedEntries faultyFS emptyDir dataDir)).
          GetSize faultyFS (Join faultyFS (Root emptyDir) n) \<noteq> Panicked \<and>
          GetSize faultyFS (Join faultyFS (Root dataDir) n) \<noteq> Panicked)"
    by (simp add: ad j g)
  from t2 loc obtain dd same where
    r: "DiffDirectory faultyFS emptyDir dataDir = Returned (dd, same)" by blast
  from DiffDirectory_Returned(1) [OF r] have n: "map Name (Adds dd) = [''/data'']"
    by (simp add: ad sortStrings_def)
  have g': "GetSize faultyFS (Join faultyFS (Root dataDir) ''/data'') = Returned 5"
    by (simp add: ad j g)
  from r n g' have 2: "\<exists>dd same. DiffDirectory faultyFS emptyDir dataDir = Returned (dd, same) \<and>
      map Name (Adds dd) = [''/data''] \<and>
      GetSize faultyFS (Join faultyFS (Root dataDir) ''/data'') = Returned 5" by auto
  have "\<not> (\<forall>n \<in> set (GetAddedEntries emptyDir \<lparr>Root = [], Content = [''/vanishing'']\<rparr>).
            GetSize faultyFS (Join faultyFS (Root \<lparr>Root = [], Content = [''/vanishing'']\<rparr>) n) \<noteq> Panicked)"
    by (simp add: GetAddedEntries_def GetAdditions_def emptyDir_def j v)
  with t3 have "\<not> (\<exists>dd same. DiffDirectory faultyFS emptyDir \<lparr>Root = [], Content = [''/vanishing'']\<rparr>
                       = Returned (dd, same))" by blast
  then have 3: "DiffDirectory faultyFS emptyDir \<lparr>Root = [], Content = [''/vanishing'']\<rparr> = Panicked"
    by (cases "DiffDirectory faultyFS emptyDir \<lparr>Root = [], Content = [''/vanishing'']\<rparr>") auto
  from t1 example_diff have s: "sorted (map DiffName (Mods exampleDiff))"
    and a: "\<forall>e \<in> set (Adds exampleDiff).
              GetSize exampleFS (Join exampleFS (Root newDir) (Name e)) = Returned (Size e)"
    and d: "\<forall>e \<in> set (Dels exampleDiff).
              GetSize exampleFS (Join exampleFS (Root oldDir) (Name e)) = Returned (Size e)"
    by blast+
  from a have a': "GetSize exampleFS (Join exampleFS (Root newDir) ''/added'') = Returned 30"
    by (simp add: exampleDiff_def)
  from d have d': "GetSize exampleFS (Join exampleFS (Root oldDir) ''/removed'') = Returned 20"
    by (simp add: exampleDiff_def)
  have m: "map DiffName (Mods exampleDiff) = [''/b.tar'', ''/c'', ''/d'']"
    by (simp add: exampleDiff_def)
  show ?thesis
    by (intro conjI) (rule example_diff m s a' d' v 2 3)+
qed

text \<open>
  Claim C8. The diff of a directory with itself returns three empty sequences and
  \<^verbatim>\<open>same = true\<close>, in every file system.
\<close>

theorem diff_with_itself:
  "DiffDirectory fs d d = Returned (\<lparr>Adds = [], Dels = [], Mods = []\<rparr>, True)"
proof -
  have a: "GetAddedEntries d d = []" by (simp add: GetAddedEntries_def GetAdditions_def)
  have b: "GetDeletedEntries d d = []" by (simp add: GetDeletedEntries_def GetDeletions_def)
  have c: "fst (GetModifiedEntries fs d d) = []"
    by (simp add: GetModifiedEntries_eq not_reported_same_root)
  show ?thesis
    by (simp add: DiffDirectory_def a b c sortStrings_def createDirectoryEntries_def
                  createEntryDiffs_def)
qed

theorem diff_with_itself_witness:
  "DiffDirectory exampleFS oldDir oldDir = Returned (\<lparr>Adds = [], Dels = [], Mods = []\<rparr>, True) \<and>
   DiffDirectory faultyFS newDir newDir = Returned (\<lparr>Adds = [], Dels = [], Mods = []\<rparr>, True)"
  using diff_with_itself [of exampleFS oldDir] diff_with_itself [of faultyFS newDir] by simp

end
